theory Spec2Isabelle
  imports Main "HOL-Library.Multiset"
begin

section \<open>JavaScript values\<close>

text \<open>
  The handlers of \<^verbatim>\<open>server.js\<close> and of the three sibling variants of the server read JSON request
  bodies, test values for truthiness and for \<^verbatim>\<open>typeof v !== 'string'\<close>, and hand values
  to \<^verbatim>\<open>res.json\<close> and \<^verbatim>\<open>res.send\<close>. A value is modelled as a JSON tree plus
  \<^verbatim>\<open>undefined\<close>. Numbers are integers (no handler computes with them) and a string is a
  list of 8-bit characters.
\<close>

datatype jsval =
    JUndefined
  | JNull
  | JBool bool
  | JNum int
  | JStr string
  | JArr "jsval list"
  | JObj "(string \<times> jsval) list"

fun truthy :: "jsval \<Rightarrow> bool" where
  "truthy JUndefined = False"
| "truthy JNull = False"
| "truthy (JBool b) = b"
| "truthy (JNum n) = (n \<noteq> 0)"
| "truthy (JStr s) = (s \<noteq> [])"
| "truthy (JArr xs) = True"
| "truthy (JObj kvs) = True"

fun typeof :: "jsval \<Rightarrow> string" where
  "typeof JUndefined = ''undefined''"
| "typeof JNull = ''object''"
| "typeof (JBool b) = ''boolean''"
| "typeof (JNum n) = ''number''"
| "typeof (JStr s) = ''string''"
| "typeof (JArr xs) = ''object''"
| "typeof (JObj kvs) = ''object''"

text \<open>
  A request body is the object that \<^verbatim>\<open>express.json()\<close> parsed, as the list of its
  properties. \<^verbatim>\<open>const { email } = req.body\<close>: a property that is absent reads as
  \<^verbatim>\<open>undefined\<close>.
\<close>

definition field :: "(string \<times> jsval) list \<Rightarrow> string \<Rightarrow> jsval" where
  "field body k = (case map_of body k of None \<Rightarrow> JUndefined | Some v \<Rightarrow> v)"

text \<open>\<^verbatim>\<open>s.includes(pat)\<close>: \<open>pat\<close> occurs in \<open>s\<close> as a contiguous substring.\<close>

fun js_includes :: "string \<Rightarrow> string \<Rightarrow> bool" where
  "js_includes [] pat = (pat = [])"
| "js_includes (c # cs) pat = (take (length pat) (c # cs) = pat \<or> js_includes cs pat)"

section \<open>The email shape check\<close>

text \<open>
  \<^verbatim>\<open>const emailRegex = /^[^\s@]+@[^\s@]+\.[^\s@]+$/;\<close>

  The regular expression is run as JavaScript runs it: each piece maps a position of the
  input (the rest of the string) to the rests it can leave behind, longest match first,
  and the pieces are chained. The expression is anchored at both ends, so the test
  succeeds when some way through the pieces leaves the empty rest.
\<close>

type_synonym matcher = "string \<Rightarrow> string list"

text \<open>The class \<^verbatim>\<open>\s\<close>, on 8-bit characters: tab, line feed, vertical tab, form feed,
  carriage return, space and the no-break space.\<close>

definition js_space :: "char \<Rightarrow> bool" where
  "js_space c = (of_char c \<in> {9, 10, 11, 12, 13, 32, 160 :: nat})"

text \<open>The class \<^verbatim>\<open>[^\s@]\<close>.\<close>

definition not_space_at :: "char \<Rightarrow> bool" where
  "not_space_at c = (\<not> js_space c \<and> c \<noteq> CHR ''@'')"

fun m_char :: "char \<Rightarrow> matcher" where
  "m_char c [] = []"
| "m_char c (x # xs) = (if x = c then [xs] else [])"

fun m_plus :: "(char \<Rightarrow> bool) \<Rightarrow> matcher" where
  "m_plus p [] = []"
| "m_plus p (x # xs) = (if p x then m_plus p xs @ [xs] else [])"

definition m_then :: "matcher \<Rightarrow> matcher \<Rightarrow> matcher" where
  "m_then f g s = concat (map g (f s))"

definition emailRegex :: matcher where
  "emailRegex =
     m_then (m_plus not_space_at)
       (m_then (m_char CHR ''@'')
         (m_then (m_plus not_space_at)
           (m_then (m_char CHR ''.'') (m_plus not_space_at))))"

definition emailRegex_test :: "string \<Rightarrow> bool" where
  "emailRegex_test s = ([] \<in> set (emailRegex s))"

text \<open>
  The shape as the specification words it: a non-whitespace local part, a single
  separating \<open>@\<close>, and a non-whitespace domain containing a dot. The string is cut at its
  first \<open>@\<close>; the domain holds no further \<open>@\<close>.
\<close>

definition claimed_email_shape :: "string \<Rightarrow> bool" where
  "claimed_email_shape s =
     (case dropWhile (\<lambda>c. c \<noteq> CHR ''@'') s of
        [] \<Rightarrow> False
      | _ # dmn \<Rightarrow>
          (let loc = takeWhile (\<lambda>c. c \<noteq> CHR ''@'') s in
           loc \<noteq> [] \<and> list_all (\<lambda>c. \<not> js_space c) loc \<and>
           dmn \<noteq> [] \<and> list_all (\<lambda>c. \<not> js_space c) dmn \<and>
           CHR ''@'' \<notin> set dmn \<and> CHR ''.'' \<in> set dmn))"

section \<open>Responses\<close>

text \<open>
  What a handler hands to Express. \<^verbatim>\<open>res.json(v)\<close> answers with the JSON text of \<open>v\<close>
  (\<open>Json v\<close>, content type \<^verbatim>\<open>application/json\<close>). \<^verbatim>\<open>res.send(v)\<close> writes a string as it
  is (\<open>Text s\<close>, content type \<^verbatim>\<open>text/html\<close>), an absent or null value as the empty text,
  and hands every other value to \<^verbatim>\<open>res.json\<close>. The status is 200 unless
  \<^verbatim>\<open>res.status\<close> sets it.
\<close>

datatype resbody = Json jsval | Text string

record response =
  res_status :: nat
  res_headers :: "(string \<times> string) list"
  res_body :: resbody

definition res_json :: "nat \<Rightarrow> jsval \<Rightarrow> response" where
  "res_json code v = \<lparr>res_status = code, res_headers = [], res_body = Json v\<rparr>"

definition res_send :: "nat \<Rightarrow> jsval \<Rightarrow> response" where
  "res_send code v =
     \<lparr>res_status = code, res_headers = [],
      res_body = (case v of JStr s \<Rightarrow> Text s | JUndefined \<Rightarrow> Text [] | JNull \<Rightarrow> Text []
                  | _ \<Rightarrow> Json v)\<rparr>"

definition error_json :: "nat \<Rightarrow> string \<Rightarrow> response" where
  "error_json code msg = res_json code (JObj [(''error'', JStr msg)])"

definition message_json :: "nat \<Rightarrow> string \<Rightarrow> response" where
  "message_json code msg = res_json code (JObj [(''message'', JStr msg)])"

section \<open>The feed proxy and its cache\<close>

text \<open>
  \<^verbatim>\<open>const cache = new NodeCache({ stdTTL: 3600 });\<close>

  The cache maps a key to a value and the instant (in milliseconds) at which the entry
  expires. \<^verbatim>\<open>cache.set\<close> stamps an entry with the current time plus the default
  time-to-live; \<^verbatim>\<open>cache.get\<close> answers \<^verbatim>\<open>undefined\<close> for an absent key and for an entry whose
  instant has passed.
\<close>

type_synonym cache = "string \<rightharpoonup> jsval \<times> nat"

definition stdTTL :: nat where
  "stdTTL = 3600"

definition cache_set :: "nat \<Rightarrow> cache \<Rightarrow> string \<Rightarrow> jsval \<Rightarrow> cache" where
  "cache_set now c k v = c(k \<mapsto> (v, now + stdTTL * 1000))"

definition cache_get :: "nat \<Rightarrow> cache \<Rightarrow> string \<Rightarrow> jsval" where
  "cache_get now c k =
     (case c k of
        None \<Rightarrow> JUndefined
      | Some (v, t) \<Rightarrow> if t < now then JUndefined else v)"

text \<open>
  The process-wide state of the feed endpoint: the cache, and the outbound requests made
  so far (the urls handed to \<^verbatim>\<open>axios.get\<close>, oldest first).
\<close>

record feed_state =
  cache :: cache
  outbound :: "string list"

text \<open>
  \<^verbatim>\<open>app.get('/fetch-feed', ...)\<close>, the same in all four files. \<open>axios_get\<close> is the origin:
  it answers a url with \<open>Inr\<close> the response data, or with \<open>Inl\<close> the message of the error
  that \<^verbatim>\<open>axios.get\<close> throws (network failure, non-2xx status, timeout). \<open>url\<close> is the query
  parameter, \<open>None\<close> when the request has none.
\<close>

definition fetch_feed ::
  "(string \<Rightarrow> string + jsval) \<Rightarrow> nat \<Rightarrow> string option \<Rightarrow> feed_state \<Rightarrow> response \<times> feed_state"
where
  "fetch_feed axios_get now url st =
     (case url of
        None \<Rightarrow> (error_json 400 ''URL parameter is required'', st)
      | Some u \<Rightarrow>
          if u = [] then (error_json 400 ''URL parameter is required'', st)
          else
            (let cachedFeed = cache_get now (cache st) u in
             if truthy cachedFeed then (res_json 200 cachedFeed, st)
             else
               (case axios_get u of
                  Inr feedData \<Rightarrow>
                    (res_send 200 feedData,
                     st\<lparr>cache := cache_set now (cache st) u feedData,
                        outbound := outbound st @ [u]\<rparr>)
                | Inl msg \<Rightarrow>
                    (error_json 500 (''Failed to fetch feed: '' @ msg),
                     st\<lparr>outbound := outbound st @ [u]\<rparr>))))"

section \<open>Basic authentication\<close>

text \<open>
  \<^verbatim>\<open>const authenticate = (req, res, next) => { const user = auth(req); ... }\<close>

  \<open>creds\<close> is what \<^verbatim>\<open>auth(req)\<close> parsed from the request: \<open>None\<close> when the request carries
  no (well-formed) basic credentials, else the name and the password. The middleware
  answers (\<open>Some\<close> the response) or calls \<^verbatim>\<open>next()\<close> (\<open>None\<close>).
\<close>

definition unauthorized :: response where
  "unauthorized =
     \<lparr>res_status = 401,
      res_headers = [(''WWW-Authenticate'', ''Basic realm='' @ [CHR 0x22] @ ''Clue Analytics Admin'' @ [CHR 0x22])],
      res_body = Json (JObj [(''error'', JStr ''Unauthorized'')])\<rparr>"

definition authenticate :: "string \<Rightarrow> (string \<times> string) option \<Rightarrow> response option" where
  "authenticate apiKey creds =
     (case creds of
        None \<Rightarrow> Some unauthorized
      | Some (name, pass) \<Rightarrow>
          if name \<noteq> ''admin'' \<or> pass \<noteq> apiKey then Some unauthorized else None)"

section \<open>Outbound mail\<close>

text \<open>
  \<^verbatim>\<open>sgMail.send(msg)\<close> is the mail provider: \<open>None\<close> when the send succeeds, \<open>Some\<close> the
  error's message when it fails. A message is modelled by its addressee, sender and
  subject; its body is fixed markup around the request's fields and is left out.
\<close>

record mailmsg =
  mail_to :: string
  mail_from :: string
  mail_subject :: string

definition subscriberMsg :: "string \<Rightarrow> mailmsg" where
  "subscriberMsg email =
     \<lparr>mail_to = email, mail_from = ''jinkaproject97@gmail.com'',
      mail_subject = ''Thank You for Subscribing to Clue Analytics!''\<rparr>"

definition adminMsg :: "string \<Rightarrow> mailmsg" where
  "adminMsg adminEmail =
     \<lparr>mail_to = adminEmail, mail_from = ''jinkaproject97@gmail.com'',
      mail_subject = ''New Contact Message from Clue Analytics''\<rparr>"

text \<open>
  What one request to a writing endpoint leaves behind: the response, the store, and the
  lines written to the console (the dumps of whole tables are left out).
\<close>

record 'db outcome =
  reply :: response
  store :: 'db
  console :: "string list"

section \<open>The embedded SQL store\<close>

text \<open>
  The two tables of \<^verbatim>\<open>subscribers.db\<close>, rows in insertion order:
  \<^verbatim>\<open>
  CREATE TABLE IF NOT EXISTS subscribers (
    id INTEGER PRIMARY KEY AUTOINCREMENT,
    email TEXT NOT NULL UNIQUE,
    subscribed_at TIMESTAMP DEFAULT CURRENT_TIMESTAMP)
  CREATE TABLE IF NOT EXISTS messages (
    id INTEGER PRIMARY KEY AUTOINCREMENT,
    name TEXT NOT NULL, email TEXT NOT NULL, message TEXT NOT NULL,
    sent_at TIMESTAMP DEFAULT CURRENT_TIMESTAMP)
  \<close>
  \<^verbatim>\<open>CURRENT_TIMESTAMP\<close> has a resolution of one second: a timestamp is the number of whole
  seconds of the instant, which is given in milliseconds.
\<close>

record subscriber_row =
  sub_id :: nat
  sub_email :: string
  subscribed_at :: nat

record message_row =
  msg_id :: nat
  msg_name :: string
  msg_email :: string
  msg_message :: string
  sent_at :: nat

record sqlite_db =
  subscribers :: "subscriber_row list"
  messages :: "message_row list"

definition next_rowid :: "nat list \<Rightarrow> nat" where
  "next_rowid ids = Suc (fold max ids 0)"

text \<open>
  \<^verbatim>\<open>INSERT INTO subscribers (email) VALUES (?)\<close>. \<open>fault\<close> is a failure of the database
  itself (\<open>Some\<close> its message), whatever the row. Without one, the \<^verbatim>\<open>UNIQUE\<close> constraint
  refuses an email that a row already holds and leaves the table as it was.
\<close>

definition insert_subscriber ::
  "string option \<Rightarrow> nat \<Rightarrow> string \<Rightarrow> sqlite_db \<Rightarrow> string + sqlite_db"
where
  "insert_subscriber fault now email db =
     (case fault of
        Some m \<Rightarrow> Inl m
      | None \<Rightarrow>
          if email \<in> set (map sub_email (subscribers db))
          then Inl ''SQLITE_CONSTRAINT: UNIQUE constraint failed: subscribers.email''
          else Inr (db\<lparr>subscribers := subscribers db @
                 [\<lparr>sub_id = next_rowid (map sub_id (subscribers db)),
                   sub_email = email, subscribed_at = now div 1000\<rparr>]\<rparr>))"

text \<open>\<^verbatim>\<open>INSERT INTO messages (name, email, message) VALUES (?, ?, ?)\<close>\<close>

definition insert_message ::
  "string option \<Rightarrow> nat \<Rightarrow> string \<Rightarrow> string \<Rightarrow> string \<Rightarrow> sqlite_db \<Rightarrow> string + sqlite_db"
where
  "insert_message fault now name email message db =
     (case fault of
        Some m \<Rightarrow> Inl m
      | None \<Rightarrow>
          Inr (db\<lparr>messages := messages db @
                 [\<lparr>msg_id = next_rowid (map msg_id (messages db)),
                   msg_name = name, msg_email = email, msg_message = message,
                   sent_at = now div 1000\<rparr>]\<rparr>))"

text \<open>
  \<^verbatim>\<open>SELECT * FROM subscribers ORDER BY subscribed_at DESC\<close> and
  \<^verbatim>\<open>SELECT * FROM messages ORDER BY sent_at DESC\<close>. SQL leaves the order of rows with equal
  timestamps open; here the later row comes first.
\<close>

definition select_subscribers :: "string option \<Rightarrow> sqlite_db \<Rightarrow> string + subscriber_row list" where
  "select_subscribers fault db =
     (case fault of
        Some m \<Rightarrow> Inl m
      | None \<Rightarrow> Inr (rev (sort_key subscribed_at (subscribers db))))"

definition select_messages :: "string option \<Rightarrow> sqlite_db \<Rightarrow> string + message_row list" where
  "select_messages fault db =
     (case fault of
        Some m \<Rightarrow> Inl m
      | None \<Rightarrow> Inr (rev (sort_key sent_at (messages db))))"

text \<open>A row as \<^verbatim>\<open>res.json(rows)\<close> shows it; a timestamp is shown as its number of seconds.\<close>

definition subscriber_json :: "subscriber_row \<Rightarrow> jsval" where
  "subscriber_json r =
     JObj [(''id'', JNum (int (sub_id r))), (''email'', JStr (sub_email r)),
           (''subscribed_at'', JNum (int (subscribed_at r)))]"

definition message_json_row :: "message_row \<Rightarrow> jsval" where
  "message_json_row r =
     JObj [(''id'', JNum (int (msg_id r))), (''name'', JStr (msg_name r)),
           (''email'', JStr (msg_email r)), (''message'', JStr (msg_message r)),
           (''sent_at'', JNum (int (sent_at r)))]"

text \<open>
  The handlers test \<^verbatim>\<open>typeof v !== 'string'\<close> before they use a field as a string;
  \<open>js_string\<close> reads the characters of a string value.
\<close>

fun js_string :: "jsval \<Rightarrow> string" where
  "js_string (JStr s) = s"
| "js_string v = []"

subsection \<open>The variant without mail\<close>

text \<open>
  \<^verbatim>\<open>app.post('/subscribe', subscribeLimiter, ...)\<close> and
  \<^verbatim>\<open>app.post('/contact', contactLimiter, ...)\<close> of the SQL variant without mail, from the
  point where the rate limiter has let the request through. The outcome of the insert
  reaches the handler in the callback of \<^verbatim>\<open>stmt.run\<close>; the \<^verbatim>\<open>catch\<close> around
  \<^verbatim>\<open>db.prepare\<close> of the fixed statement has no branch here.
\<close>

definition subscribe_sqlite ::
  "string option \<Rightarrow> nat \<Rightarrow> (string \<times> jsval) list \<Rightarrow> sqlite_db \<Rightarrow> sqlite_db outcome"
where
  "subscribe_sqlite fault now body db =
     (let email = field body ''email'' in
      if \<not> truthy email \<or> typeof email \<noteq> ''string''
      then \<lparr>reply = error_json 400 ''Email is required and must be a string'',
            store = db, console = []\<rparr>
      else if \<not> emailRegex_test (js_string email)
      then \<lparr>reply = error_json 400 ''Invalid email address'', store = db, console = []\<rparr>
      else
        (case insert_subscriber fault now (js_string email) db of
           Inl m \<Rightarrow>
             if js_includes m ''UNIQUE constraint failed''
             then \<lparr>reply = error_json 409 ''Email already subscribed'',
                   store = db, console = []\<rparr>
             else \<lparr>reply = error_json 500 ''Failed to subscribe'', store = db,
                   console = [''Error inserting email: '' @ m]\<rparr>
         | Inr db' \<Rightarrow>
             \<lparr>reply = message_json 200 ''Successfully subscribed!'', store = db',
                 console = [''Subscribed email: '' @ js_string email]\<rparr>))"

definition contact_sqlite ::
  "string option \<Rightarrow> nat \<Rightarrow> (string \<times> jsval) list \<Rightarrow> sqlite_db \<Rightarrow> sqlite_db outcome"
where
  "contact_sqlite fault now body db =
     (let name = field body ''name''; email = field body ''email'';
          message = field body ''message'' in
      if \<not> truthy name \<or> typeof name \<noteq> ''string''
      then \<lparr>reply = error_json 400 ''Name is required and must be a string'',
            store = db, console = []\<rparr>
      else if \<not> truthy email \<or> typeof email \<noteq> ''string''
      then \<lparr>reply = error_json 400 ''Email is required and must be a string'',
            store = db, console = []\<rparr>
      else if \<not> truthy message \<or> typeof message \<noteq> ''string''
      then \<lparr>reply = error_json 400 ''Message is required and must be a string'',
            store = db, console = []\<rparr>
      else if \<not> emailRegex_test (js_string email)
      then \<lparr>reply = error_json 400 ''Invalid email address'', store = db, console = []\<rparr>
      else
        (case insert_message fault now (js_string name) (js_string email)
                (js_string message) db of
           Inl m \<Rightarrow>
             \<lparr>reply = error_json 500 ''Failed to send message'', store = db,
              console = [''Error inserting message: '' @ m]\<rparr>
         | Inr db' \<Rightarrow>
             \<lparr>reply = message_json 200 ''Message sent successfully!'', store = db',
                 console =
                   [''Message sent from '' @ js_string name @ '' ('' @ js_string email @ ''): '' @
                      js_string message]\<rparr>))"

subsection \<open>The variant with mail\<close>

text \<open>
  The same two handlers in the SQL variant with mail. The send is started and not
  awaited: \<^verbatim>\<open>sgMail.send(subscriberMsg).then(...).catch(...)\<close> only writes a line to the
  console, and the response follows at once.
\<close>

definition subscribe_sqlite_mail ::
  "(mailmsg \<Rightarrow> string option) \<Rightarrow> string option \<Rightarrow> nat \<Rightarrow> (string \<times> jsval) list \<Rightarrow> sqlite_db
     \<Rightarrow> sqlite_db outcome"
where
  "subscribe_sqlite_mail sgMail_send fault now body db =
     (let email = field body ''email'' in
      if \<not> truthy email \<or> typeof email \<noteq> ''string''
      then \<lparr>reply = error_json 400 ''Email is required and must be a string'',
            store = db, console = []\<rparr>
      else if \<not> emailRegex_test (js_string email)
      then \<lparr>reply = error_json 400 ''Invalid email address'', store = db, console = []\<rparr>
      else
        (case insert_subscriber fault now (js_string email) db of
           Inl m \<Rightarrow>
             if js_includes m ''UNIQUE constraint failed''
             then \<lparr>reply = error_json 409 ''Email already subscribed'',
                   store = db, console = []\<rparr>
             else \<lparr>reply = error_json 500 ''Failed to subscribe'', store = db,
                   console = [''Error inserting email: '' @ m]\<rparr>
         | Inr db' \<Rightarrow>
             \<lparr>reply = message_json 200 ''Successfully subscribed!'', store = db',
                 console =
                   [''Subscribed email: '' @ js_string email,
                    (case sgMail_send (subscriberMsg (js_string email)) of
                       None \<Rightarrow> ''Confirmation email sent to '' @ js_string email
                     | Some e \<Rightarrow> ''Error sending confirmation email: '' @ e)]\<rparr>))"

definition contact_sqlite_mail ::
  "(mailmsg \<Rightarrow> string option) \<Rightarrow> string \<Rightarrow> string option \<Rightarrow> nat \<Rightarrow> (string \<times> jsval) list
     \<Rightarrow> sqlite_db \<Rightarrow> sqlite_db outcome"
where
  "contact_sqlite_mail sgMail_send adminEmail fault now body db =
     (let name = field body ''name''; email = field body ''email'';
          message = field body ''message'' in
      if \<not> truthy name \<or> typeof name \<noteq> ''string''
      then \<lparr>reply = error_json 400 ''Name is required and must be a string'',
            store = db, console = []\<rparr>
      else if \<not> truthy email \<or> typeof email \<noteq> ''string''
      then \<lparr>reply = error_json 400 ''Email is required and must be a string'',
            store = db, console = []\<rparr>
      else if \<not> truthy message \<or> typeof message \<noteq> ''string''
      then \<lparr>reply = error_json 400 ''Message is required and must be a string'',
            store = db, console = []\<rparr>
      else if \<not> emailRegex_test (js_string email)
      then \<lparr>reply = error_json 400 ''Invalid email address'', store = db, console = []\<rparr>
      else
        (case insert_message fault now (js_string name) (js_string email)
                (js_string message) db of
           Inl m \<Rightarrow>
             \<lparr>reply = error_json 500 ''Failed to send message'', store = db,
              console = [''Error inserting message: '' @ m]\<rparr>
         | Inr db' \<Rightarrow>
             \<lparr>reply = message_json 200 ''Message sent successfully!'', store = db',
                 console =
                   [''Message sent from '' @ js_string name @ '' ('' @ js_string email @ ''): '' @
                      js_string message,
                    (case sgMail_send (adminMsg adminEmail) of
                       None \<Rightarrow>
                         ''Notification email sent to admin ('' @ adminEmail @
                           '') for message from '' @ js_string name
                     | Some e \<Rightarrow> ''Error sending admin notification email: '' @ e)]\<rparr>))"

subsection \<open>The secured read endpoints\<close>

text \<open>
  \<^verbatim>\<open>app.get('/subscribers', authenticate, ...)\<close> and
  \<^verbatim>\<open>app.get('/messages', authenticate, ...)\<close>, the same in both SQL variants.
\<close>

definition get_subscribers_sqlite ::
  "string \<Rightarrow> (string \<times> string) option \<Rightarrow> string option \<Rightarrow> sqlite_db \<Rightarrow> response"
where
  "get_subscribers_sqlite apiKey creds fault db =
     (case authenticate apiKey creds of
        Some r \<Rightarrow> r
      | None \<Rightarrow>
          (case select_subscribers fault db of
             Inl m \<Rightarrow> error_json 500 ''Failed to retrieve subscribers''
           | Inr rows \<Rightarrow> res_json 200 (JArr (map subscriber_json rows))))"

definition get_messages_sqlite ::
  "string \<Rightarrow> (string \<times> string) option \<Rightarrow> string option \<Rightarrow> sqlite_db \<Rightarrow> response"
where
  "get_messages_sqlite apiKey creds fault db =
     (case authenticate apiKey creds of
        Some r \<Rightarrow> r
      | None \<Rightarrow>
          (case select_messages fault db of
             Inl m \<Rightarrow> error_json 500 ''Failed to retrieve messages''
           | Inr rows \<Rightarrow> res_json 200 (JArr (map message_json_row rows))))"

section \<open>The hosted realtime database\<close>

text \<open>
  \<^verbatim>\<open>server.js\<close> keeps its records in a JSON tree: the children of \<^verbatim>\<open>subscribers\<close> and of
  \<^verbatim>\<open>messages\<close>, each a key and a value, in key order. \<^verbatim>\<open>db.ref(path).push()\<close> makes a
  fresh key (\<open>key\<close>, chosen by the database client) that sorts after the keys made
  before it, and \<^verbatim>\<open>ref.set(value)\<close> writes the value under it: a new child is the last
  one. \<open>fault\<close> is a failure of the write or read (\<open>Some\<close> its message). The instant that
  \<^verbatim>\<open>new Date().toISOString()\<close> writes is kept as its number of milliseconds.
\<close>

record fb_db =
  fb_subscribers :: "(string \<times> jsval) list"
  fb_messages :: "(string \<times> jsval) list"

definition fb_set ::
  "string option \<Rightarrow> string \<Rightarrow> jsval \<Rightarrow> (string \<times> jsval) list \<Rightarrow> string + (string \<times> jsval) list"
where
  "fb_set fault key v children =
     (case fault of Some m \<Rightarrow> Inl m | None \<Rightarrow> Inr (children @ [(key, v)]))"

text \<open>\<^verbatim>\<open>snapshot.val()\<close>: \<^verbatim>\<open>null\<close> for a node without children, else the object of them.\<close>

definition snapshot_val :: "(string \<times> jsval) list \<Rightarrow> jsval" where
  "snapshot_val children = (if children = [] then JNull else JObj children)"

definition fb_once :: "string option \<Rightarrow> (string \<times> jsval) list \<Rightarrow> string + jsval" where
  "fb_once fault children =
     (case fault of Some m \<Rightarrow> Inl m | None \<Rightarrow> Inr (snapshot_val children))"

text \<open>
  \<^verbatim>\<open>Object.entries(v).map(([id, data]) => ({ id, ...data }))\<close>: each child becomes its
  value with the key added as \<^verbatim>\<open>id\<close>; a property \<^verbatim>\<open>id\<close> of the value itself would win.
  Every value that the handlers write is an object.
\<close>

fun with_id :: "string \<times> jsval \<Rightarrow> jsval" where
  "with_id (k, JObj fs) =
     JObj ((''id'', (case map_of fs ''id'' of None \<Rightarrow> JStr k | Some v \<Rightarrow> v))
           # filter (\<lambda>kv. fst kv \<noteq> ''id'') fs)"
| "with_id (k, v) = JObj [(''id'', JStr k)]"

fun entries_with_id :: "jsval \<Rightarrow> jsval list" where
  "entries_with_id (JObj kvs) = map with_id kvs"
| "entries_with_id v = []"

text \<open>\<^verbatim>\<open>app.post('/subscribe', subscribeLimiter, ...)\<close> of \<^verbatim>\<open>server.js\<close>: the write and the
  send are both awaited inside one \<^verbatim>\<open>try\<close>, whose \<^verbatim>\<open>catch\<close> answers 500.\<close>

definition subscribe_firebase ::
  "(mailmsg \<Rightarrow> string option) \<Rightarrow> string option \<Rightarrow> string \<Rightarrow> nat \<Rightarrow> (string \<times> jsval) list \<Rightarrow> fb_db
     \<Rightarrow> fb_db outcome"
where
  "subscribe_firebase sgMail_send fault key now body db =
     (let email = field body ''email'' in
      if \<not> truthy email \<or> typeof email \<noteq> ''string''
      then \<lparr>reply = error_json 400 ''Email is required and must be a string'',
            store = db, console = []\<rparr>
      else if \<not> emailRegex_test (js_string email)
      then \<lparr>reply = error_json 400 ''Invalid email address'', store = db, console = []\<rparr>
      else
        (case fb_set fault key
                (JObj [(''email'', email), (''subscribed_at'', JNum (int now))])
                (fb_subscribers db) of
           Inl m \<Rightarrow>
             \<lparr>reply = error_json 500 ''Failed to subscribe'', store = db,
              console = [''Error processing subscription: '' @ m]\<rparr>
         | Inr subs' \<Rightarrow>
             (case sgMail_send (subscriberMsg (js_string email)) of
                Some m \<Rightarrow>
                  \<lparr>reply = error_json 500 ''Failed to subscribe'',
                   store = db\<lparr>fb_subscribers := subs'\<rparr>,
                   console = [''Subscribed email: '' @ js_string email,
                              ''Error processing subscription: '' @ m]\<rparr>
              | None \<Rightarrow>
                  \<lparr>reply = message_json 200 ''Successfully subscribed!'',
                   store = db\<lparr>fb_subscribers := subs'\<rparr>,
                   console = [''Subscribed email: '' @ js_string email,
                              ''Confirmation email sent to '' @ js_string email]\<rparr>)))"

text \<open>\<^verbatim>\<open>app.post('/contact', contactLimiter, ...)\<close> of \<^verbatim>\<open>server.js\<close>.\<close>

definition contact_firebase ::
  "(mailmsg \<Rightarrow> string option) \<Rightarrow> string \<Rightarrow> string option \<Rightarrow> string \<Rightarrow> nat \<Rightarrow> (string \<times> jsval) list
     \<Rightarrow> fb_db \<Rightarrow> fb_db outcome"
where
  "contact_firebase sgMail_send adminEmail fault key now body db =
     (let name = field body ''name''; email = field body ''email'';
          message = field body ''message'' in
      if \<not> truthy name \<or> typeof name \<noteq> ''string''
      then \<lparr>reply = error_json 400 ''Name is required and must be a string'',
            store = db, console = []\<rparr>
      else if \<not> truthy email \<or> typeof email \<noteq> ''string''
      then \<lparr>reply = error_json 400 ''Email is required and must be a string'',
            store = db, console = []\<rparr>
      else if \<not> truthy message \<or> typeof message \<noteq> ''string''
      then \<lparr>reply = error_json 400 ''Message is required and must be a string'',
            store = db, console = []\<rparr>
      else if \<not> emailRegex_test (js_string email)
      then \<lparr>reply = error_json 400 ''Invalid email address'', store = db, console = []\<rparr>
      else
        (case fb_set fault key
                (JObj [(''name'', name), (''email'', email), (''message'', message),
                       (''sent_at'', JNum (int now))])
                (fb_messages db) of
           Inl m \<Rightarrow>
             \<lparr>reply = error_json 500 ''Failed to send message'', store = db,
              console = [''Error processing message: '' @ m]\<rparr>
         | Inr msgs' \<Rightarrow>
             (case sgMail_send (adminMsg adminEmail) of
                Some m \<Rightarrow>
                  \<lparr>reply = error_json 500 ''Failed to send message'',
                   store = db\<lparr>fb_messages := msgs'\<rparr>,
                   console =
                     [''Message sent from '' @ js_string name @ '' ('' @ js_string email @
                        ''): '' @ js_string message,
                      ''Error processing message: '' @ m]\<rparr>
              | None \<Rightarrow>
                  \<lparr>reply = message_json 200 ''Message sent successfully!'',
                   store = db\<lparr>fb_messages := msgs'\<rparr>,
                   console =
                     [''Message sent from '' @ js_string name @ '' ('' @ js_string email @
                        ''): '' @ js_string message,
                      ''Notification email sent to admin ('' @ adminEmail @
                        '') for message from '' @ js_string name]\<rparr>)))"

text \<open>\<^verbatim>\<open>app.get('/subscribers', authenticate, ...)\<close> and
  \<^verbatim>\<open>app.get('/messages', authenticate, ...)\<close> of \<^verbatim>\<open>server.js\<close>.\<close>

definition get_subscribers_firebase ::
  "string \<Rightarrow> (string \<times> string) option \<Rightarrow> string option \<Rightarrow> fb_db \<Rightarrow> response"
where
  "get_subscribers_firebase apiKey creds fault db =
     (case authenticate apiKey creds of
        Some r \<Rightarrow> r
      | None \<Rightarrow>
          (case fb_once fault (fb_subscribers db) of
             Inl m \<Rightarrow> error_json 500 ''Failed to retrieve subscribers''
           | Inr v \<Rightarrow> res_json 200 (JArr (if truthy v then entries_with_id v else []))))"

definition get_messages_firebase ::
  "string \<Rightarrow> (string \<times> string) option \<Rightarrow> string option \<Rightarrow> fb_db \<Rightarrow> response"
where
  "get_messages_firebase apiKey creds fault db =
     (case authenticate apiKey creds of
        Some r \<Rightarrow> r
      | None \<Rightarrow>
          (case fb_once fault (fb_messages db) of
             Inl m \<Rightarrow> error_json 500 ''Failed to retrieve messages''
           | Inr v \<Rightarrow> res_json 200 (JArr (if truthy v then entries_with_id v else []))))"

section \<open>The rate limiters' options\<close>

text \<open>
  \<^verbatim>\<open>const subscribeLimiter = rateLimit({ windowMs: 15 * 60 * 1000, max: 10, message: ...,
  keyGenerator: ... })\<close> and its sibling \<^verbatim>\<open>contactLimiter\<close> with \<^verbatim>\<open>max: 5\<close>. The source
  fixes these options and the key; the counting itself belongs to the rate-limiting
  middleware.
\<close>

record limiter_options =
  windowMs :: nat
  max_requests :: nat
  limit_message :: string

definition subscribeLimiter :: limiter_options where
  "subscribeLimiter =
     \<lparr>windowMs = 15 * 60 * 1000, max_requests = 10,
      limit_message = ''Too many subscription attempts from this IP, please try again later.''\<rparr>"

definition contactLimiter :: limiter_options where
  "contactLimiter =
     \<lparr>windowMs = 15 * 60 * 1000, max_requests = 5,
      limit_message = ''Too many contact messages from this IP, please try again later.''\<rparr>"

text \<open>\<^verbatim>\<open>s.trim()\<close>: whitespace is dropped at both ends.\<close>

definition js_trim :: "string \<Rightarrow> string" where
  "js_trim s = rev (dropWhile js_space (rev (dropWhile js_space s)))"

text \<open>
  \<^verbatim>\<open>keyGenerator: (req) => { const forwardedFor = req.headers['x-forwarded-for'];
  return forwardedFor ? forwardedFor.split(',')[0].trim() : req.ip; }\<close>

  \<open>forwardedFor\<close> is the header (\<open>None\<close> when the request has none) and \<open>ip\<close> is
  \<^verbatim>\<open>req.ip\<close>. The piece before the first comma is \<^verbatim>\<open>split(',')[0]\<close>.
\<close>

definition keyGenerator :: "string option \<Rightarrow> string \<Rightarrow> string" where
  "keyGenerator forwardedFor ip =
     (case forwardedFor of
        None \<Rightarrow> ip
      | Some h \<Rightarrow> if h = [] then ip else js_trim (takeWhile (\<lambda>c. c \<noteq> CHR '','') h))"

section \<open>Properties of the email shape check\<close>

lemma m_char_set: "v \<in> set (m_char c s) \<longleftrightarrow> s = c # v"
  by (cases s) auto

lemma m_plus_set:
  "v \<in> set (m_plus p s) \<longleftrightarrow> (\<exists>u. s = u @ v \<and> u \<noteq> [] \<and> list_all p u)"
proof (induction s)
  case Nil
  then show ?case by simp
next
  case (Cons x xs)
  show ?case
  proof (cases "p x")
    case False
    then show ?thesis
      by (auto simp: Cons_eq_append_conv)
  next
    case True
    have "(\<exists>u. x # xs = u @ v \<and> u \<noteq> [] \<and> list_all p u)
            \<longleftrightarrow> (v = xs \<or> (\<exists>u. xs = u @ v \<and> u \<noteq> [] \<and> list_all p u))"
      (is "?L \<longleftrightarrow> ?R")
    proof
      assume ?L
      then obtain u where u: "x # xs = u @ v" "u \<noteq> []" "list_all p u" by blast
      then obtain u' where u': "u = x # u'" "xs = u' @ v"
        by (auto simp: Cons_eq_append_conv)
      show ?R
      proof (cases "u' = []")
        case True
        with u' show ?thesis by simp
      next
        case False
        with u u' show ?thesis by auto
      qed
    next
      assume ?R
      then show ?L
      proof
        assume "v = xs"
        then have "x # xs = [x] @ v \<and> [x] \<noteq> [] \<and> list_all p [x]"
          using True by simp
        then show ?L by blast
      next
        assume "\<exists>u. xs = u @ v \<and> u \<noteq> [] \<and> list_all p u"
        then obtain u where "xs = u @ v" "u \<noteq> []" "list_all p u" by blast
        then have "x # xs = (x # u) @ v \<and> x # u \<noteq> [] \<and> list_all p (x # u)"
          using True by simp
        then show ?L by blast
      qed
    qed
    with True Cons.IH show ?thesis by auto
  qed
qed

lemma m_then_set: "v \<in> set (m_then f g s) \<longleftrightarrow> (\<exists>w. w \<in> set (f s) \<and> v \<in> set (g w))"
  by (auto simp: m_then_def)

text \<open>
  C7, as the code has it. An email passes the check exactly when it is a local part, an
  \<open>@\<close> and a domain, all free of whitespace and of further \<open>@\<close>, where the domain has a
  dot with at least one character before it and at least one character after it.
\<close>

theorem emailRegex_test_iff:
  "emailRegex_test s \<longleftrightarrow>
     (\<exists>loc d1 d2. s = loc @ CHR ''@'' # d1 @ CHR ''.'' # d2 \<and>
        loc \<noteq> [] \<and> list_all not_space_at loc \<and>
        d1 \<noteq> [] \<and> list_all not_space_at d1 \<and>
        d2 \<noteq> [] \<and> list_all not_space_at d2)"
  (is "?L \<longleftrightarrow> ?R")
proof
  assume ?L
  then obtain r1 r2 r3 r4 where
    a: "r1 \<in> set (m_plus not_space_at s)" and
    b: "r2 \<in> set (m_char CHR ''@'' r1)" and
    c: "r3 \<in> set (m_plus not_space_at r2)" and
    d: "r4 \<in> set (m_char CHR ''.'' r3)" and
    e: "[] \<in> set (m_plus not_space_at r4)"
    unfolding emailRegex_test_def emailRegex_def m_then_set by blast
  from a obtain loc where loc: "s = loc @ r1" "loc \<noteq> []" "list_all not_space_at loc"
    unfolding m_plus_set by blast
  from b have r1: "r1 = CHR ''@'' # r2" unfolding m_char_set .
  from c obtain d1 where d1: "r2 = d1 @ r3" "d1 \<noteq> []" "list_all not_space_at d1"
    unfolding m_plus_set by blast
  from d have r3: "r3 = CHR ''.'' # r4" unfolding m_char_set .
  from e have r4: "r4 \<noteq> []" "list_all not_space_at r4"
    unfolding m_plus_set by auto
  from loc r1 d1 r3 r4 show ?R by blast
next
  assume ?R
  then obtain loc d1 d2 where s: "s = loc @ CHR ''@'' # d1 @ CHR ''.'' # d2"
    and loc: "loc \<noteq> []" "list_all not_space_at loc"
    and d1: "d1 \<noteq> []" "list_all not_space_at d1"
    and d2: "d2 \<noteq> []" "list_all not_space_at d2" by blast
  have a: "CHR ''@'' # d1 @ CHR ''.'' # d2 \<in> set (m_plus not_space_at s)"
    unfolding m_plus_set using s loc by blast
  have b: "d1 @ CHR ''.'' # d2 \<in> set (m_char CHR ''@'' (CHR ''@'' # d1 @ CHR ''.'' # d2))"
    by simp
  have c: "CHR ''.'' # d2 \<in> set (m_plus not_space_at (d1 @ CHR ''.'' # d2))"
    unfolding m_plus_set using d1 by blast
  have d: "d2 \<in> set (m_char CHR ''.'' (CHR ''.'' # d2))"
    by simp
  have e: "[] \<in> set (m_plus not_space_at d2)"
    unfolding m_plus_set using d2 by simp
  from a b c d e show ?L
    unfolding emailRegex_test_def emailRegex_def m_then_set by blast
qed

text \<open>
  C7 as the specification words it fails: \<open>a@.com\<close> has a non-whitespace local part, one
  \<open>@\<close> and a non-whitespace domain containing a dot, and the check rejects it, since
  nothing stands between the \<open>@\<close> and the dot.
\<close>

theorem emailRegex_claimed_shape_counterexample:
  "claimed_email_shape ''a@.com'' \<and> \<not> emailRegex_test ''a@.com''"
  by (simp add: claimed_email_shape_def emailRegex_test_def emailRegex_def m_then_def
      not_space_at_def js_space_def)

section \<open>Properties of the feed proxy\<close>

lemma cache_get_fresh:
  "now \<le> now' \<Longrightarrow> now' \<le> now + stdTTL * 1000 \<Longrightarrow> cache_get now' (cache_set now c k v) k = v"
  by (simp add: cache_get_def cache_set_def)

lemma cache_get_other:
  "k' \<noteq> k \<Longrightarrow> cache_get now' (cache_set now c k v) k' = cache_get now' c k'"
  by (simp add: cache_get_def cache_set_def)

text \<open>On a miss the payload is fetched once, stored under the url as it is, and sent.\<close>

lemma fetch_feed_miss:
  assumes "u \<noteq> []" "\<not> truthy (cache_get now (cache st) u)" "axios_get u = Inr d"
  shows "fetch_feed axios_get now (Some u) st =
           (res_send 200 d,
            st\<lparr>cache := cache_set now (cache st) u d, outbound := outbound st @ [u]\<rparr>)"
  using assms by (simp add: fetch_feed_def)

lemma fetch_feed_hit:
  assumes "u \<noteq> []" "truthy (cache_get now (cache st) u)"
  shows "fetch_feed axios_get now (Some u) st = (res_json 200 (cache_get now (cache st) u), st)"
  using assms by (simp add: fetch_feed_def)

text \<open>
  A truthy payload is served from the cache until it expires: the state, and with it the
  list of outbound requests, stays as the first request left it.
\<close>

lemma fetch_feed_repeat_truthy:
  assumes "u \<noteq> []" "\<not> truthy (cache_get now (cache st) u)" "axios_get u = Inr d"
    and "truthy d" "now \<le> now'" "now' \<le> now + stdTTL * 1000"
  shows "fetch_feed axios_get' now' (Some u) (snd (fetch_feed axios_get now (Some u) st)) =
           (res_json 200 d, snd (fetch_feed axios_get now (Some u) st))"
  using assms by (simp add: fetch_feed_miss fetch_feed_hit cache_get_fresh)

text \<open>
  C8. A request without the \<open>url\<close> parameter is answered 400 and leaves the state (cache
  and outbound requests) as it was. When the origin fails on a miss, the answer is 500,
  the url was requested once and the cache is unchanged. No request adds more than one
  outbound request.
\<close>

theorem fetch_feed_errors:
  "fetch_feed axios_get now None st = (error_json 400 ''URL parameter is required'', st) \<and>
   (u \<noteq> [] \<longrightarrow> \<not> truthy (cache_get now (cache st) u) \<longrightarrow> axios_get u = Inl msg \<longrightarrow>
      fetch_feed axios_get now (Some u) st =
        (error_json 500 (''Failed to fetch feed: '' @ msg), st\<lparr>outbound := outbound st @ [u]\<rparr>)) \<and>
   length (outbound (snd (fetch_feed axios_get now url st))) \<le> Suc (length (outbound st))"
  by (auto simp: fetch_feed_def Let_def split: option.splits sum.splits)

theorem fetch_feed_errors_witness:
  "fetch_feed (\<lambda>u. Inl ''timeout'') 5 None \<lparr>cache = Map.empty, outbound = []\<rparr> =
     (error_json 400 ''URL parameter is required'', \<lparr>cache = Map.empty, outbound = []\<rparr>) \<and>
   fetch_feed (\<lambda>u. Inl ''timeout'') 5 (Some ''http://x/feed'') \<lparr>cache = Map.empty, outbound = []\<rparr> =
     (error_json 500 ''Failed to fetch feed: timeout'',
      \<lparr>cache = Map.empty, outbound = [''http://x/feed'']\<rparr>)"
  using fetch_feed_errors [of "\<lambda>u. Inl ''timeout''" 5 "\<lparr>cache = Map.empty, outbound = []\<rparr>"
      "''http://x/feed''" "''timeout''" None]
  by (simp add: cache_get_def)

text \<open>
  C4, at the input where the code departs from it. When the origin answers a url with a
  non-empty text \<open>s\<close> (a feed document), the first response writes \<open>s\<close> as it is, and a
  repeat within the time-to-live answers with the JSON text of the string \<open>s\<close>: the hit
  goes through \<^verbatim>\<open>res.json\<close>, the miss through \<^verbatim>\<open>res.send\<close>.
\<close>

theorem fetch_feed_cached_text_is_json:
  "u \<noteq> [] \<Longrightarrow> s \<noteq> [] \<Longrightarrow> \<not> truthy (cache_get now (cache st) u) \<Longrightarrow> axios_get u = Inr (JStr s) \<Longrightarrow>
   now \<le> now' \<Longrightarrow> now' \<le> now + stdTTL * 1000 \<Longrightarrow>
   res_body (fst (fetch_feed axios_get now (Some u) st)) = Text s \<and>
   res_body (fst (fetch_feed axios_get now' (Some u) (snd (fetch_feed axios_get now (Some u) st))))
     = Json (JStr s)"
  by (simp add: fetch_feed_miss fetch_feed_hit cache_get_fresh res_send_def res_json_def)

theorem fetch_feed_cached_text_is_json_witness:
  "res_body (fst (fetch_feed (\<lambda>u. Inr (JStr ''<rss/>'')) 0 (Some ''http://x/feed'')
       \<lparr>cache = Map.empty, outbound = []\<rparr>)) = Text ''<rss/>'' \<and>
   res_body (fst (fetch_feed (\<lambda>u. Inr (JStr ''<rss/>'')) 1000 (Some ''http://x/feed'')
       (snd (fetch_feed (\<lambda>u. Inr (JStr ''<rss/>'')) 0 (Some ''http://x/feed'')
          \<lparr>cache = Map.empty, outbound = []\<rparr>)))) = Json (JStr ''<rss/>'')"
  using fetch_feed_cached_text_is_json [of "''http://x/feed''" "''<rss/>''" 0
      "\<lparr>cache = Map.empty, outbound = []\<rparr>" "\<lambda>u. Inr (JStr ''<rss/>'')" 1000]
  by (simp add: cache_get_def stdTTL_def)

text \<open>
  A payload that is not truthy (an empty document) is stored and never served: the
  repeat one second later asks the origin again.
\<close>

lemma fetch_feed_empty_payload_refetched:
  "outbound (snd (fetch_feed (\<lambda>u. Inr (JStr [])) 1000 (Some ''http://x/feed'')
       (snd (fetch_feed (\<lambda>u. Inr (JStr [])) 0 (Some ''http://x/feed'')
          \<lparr>cache = Map.empty, outbound = []\<rparr>)))) = [''http://x/feed'', ''http://x/feed'']"
  by (simp add: fetch_feed_def cache_get_def cache_set_def stdTTL_def Let_def)

section \<open>Properties of the input checks\<close>

lemma emailRegex_test_Nil: "\<not> emailRegex_test []"
  by (simp add: emailRegex_test_def emailRegex_def m_then_def)

lemma emailRegex_test_example: "emailRegex_test ''a@b.com''"
  by (simp add: emailRegex_test_def emailRegex_def m_then_def not_space_at_def js_space_def)

lemma valid_email_field:
  "emailRegex_test e \<Longrightarrow> truthy (JStr e) \<and> typeof (JStr e) = ''string''"
  using emailRegex_test_Nil by auto

lemma field_single: "field [(k, v)] k = v"
  by (simp add: field_def)

lemma res_status_error_json: "res_status (error_json code msg) = code"
  by (simp add: error_json_def res_json_def)

text \<open>
  C5. A subscribe request whose \<open>email\<close> is missing or not a string, or fails the shape
  check, and a contact request with a missing or non-string \<open>name\<close>, \<open>email\<close> or
  \<open>message\<close> or an \<open>email\<close> failing the shape check, is answered 400 and the store is
  left as it was, in all three variants.
\<close>

theorem invalid_input_is_400_without_write:
  "(typeof (field body ''email'') \<noteq> ''string'' \<or>
      \<not> emailRegex_test (js_string (field body ''email'')) \<longrightarrow>
      res_status (reply (subscribe_sqlite fault now body db)) = 400 \<and>
      store (subscribe_sqlite fault now body db) = db \<and>
      res_status (reply (subscribe_sqlite_mail sgMail_send fault now body db)) = 400 \<and>
      store (subscribe_sqlite_mail sgMail_send fault now body db) = db \<and>
      res_status (reply (subscribe_firebase sgMail_send fault key now body fdb)) = 400 \<and>
      store (subscribe_firebase sgMail_send fault key now body fdb) = fdb) \<and>
   (typeof (field body ''name'') \<noteq> ''string'' \<or>
      typeof (field body ''email'') \<noteq> ''string'' \<or>
      typeof (field body ''message'') \<noteq> ''string'' \<or>
      \<not> emailRegex_test (js_string (field body ''email'')) \<longrightarrow>
      res_status (reply (contact_sqlite fault now body db)) = 400 \<and>
      store (contact_sqlite fault now body db) = db \<and>
      res_status (reply (contact_sqlite_mail sgMail_send adminEmail fault now body db)) = 400 \<and>
      store (contact_sqlite_mail sgMail_send adminEmail fault now body db) = db \<and>
      res_status (reply (contact_firebase sgMail_send adminEmail fault key now body fdb)) = 400 \<and>
      store (contact_firebase sgMail_send adminEmail fault key now body fdb) = fdb)"
proof -
  have s1: "res_status (reply (subscribe_sqlite fault now body db)) = 400 \<and>
      store (subscribe_sqlite fault now body db) = db"
    if "typeof (field body ''email'') \<noteq> ''string'' \<or>
      \<not> emailRegex_test (js_string (field body ''email''))"
    using that by (auto simp: subscribe_sqlite_def Let_def res_status_error_json)
  have s2: "res_status (reply (subscribe_sqlite_mail sgMail_send fault now body db)) = 400 \<and>
      store (subscribe_sqlite_mail sgMail_send fault now body db) = db"
    if "typeof (field body ''email'') \<noteq> ''string'' \<or>
      \<not> emailRegex_test (js_string (field body ''email''))"
    using that by (auto simp: subscribe_sqlite_mail_def Let_def res_status_error_json)
  have s3: "res_status (reply (subscribe_firebase sgMail_send fault key now body fdb)) = 400 \<and>
      store (subscribe_firebase sgMail_send fault key now body fdb) = fdb"
    if "typeof (field body ''email'') \<noteq> ''string'' \<or>
      \<not> emailRegex_test (js_string (field body ''email''))"
    using that by (auto simp: subscribe_firebase_def Let_def res_status_error_json)
  have c1: "res_status (reply (contact_sqlite fault now body db)) = 400 \<and>
      store (contact_sqlite fault now body db) = db"
    if "typeof (field body ''name'') \<noteq> ''string'' \<or>
      typeof (field body ''email'') \<noteq> ''string'' \<or>
      typeof (field body ''message'') \<noteq> ''string'' \<or>
      \<not> emailRegex_test (js_string (field body ''email''))"
    using that by (auto simp: contact_sqlite_def Let_def res_status_error_json)
  have c2: "res_status (reply (contact_sqlite_mail sgMail_send adminEmail fault now body db)) = 400 \<and>
      store (contact_sqlite_mail sgMail_send adminEmail fault now body db) = db"
    if "typeof (field body ''name'') \<noteq> ''string'' \<or>
      typeof (field body ''email'') \<noteq> ''string'' \<or>
      typeof (field body ''message'') \<noteq> ''string'' \<or>
      \<not> emailRegex_test (js_string (field body ''email''))"
    using that by (auto simp: contact_sqlite_mail_def Let_def res_status_error_json)
  have c3: "res_status (reply (contact_firebase sgMail_send adminEmail fault key now body fdb)) = 400 \<and>
      store (contact_firebase sgMail_send adminEmail fault key now body fdb) = fdb"
    if "typeof (field body ''name'') \<noteq> ''string'' \<or>
      typeof (field body ''email'') \<noteq> ''string'' \<or>
      typeof (field body ''message'') \<noteq> ''string'' \<or>
      \<not> emailRegex_test (js_string (field body ''email''))"
    using that by (auto simp: contact_firebase_def Let_def res_status_error_json)
  from s1 s2 s3 c1 c2 c3 show ?thesis by blast
qed

theorem invalid_input_is_400_without_write_witness:
  "res_status (reply (subscribe_sqlite None 1000 [(''email'', JStr ''not-an-email'')]
      \<lparr>subscribers = [], messages = []\<rparr>)) = 400 \<and>
   store (subscribe_sqlite None 1000 [(''email'', JStr ''not-an-email'')]
      \<lparr>subscribers = [], messages = []\<rparr>) = \<lparr>subscribers = [], messages = []\<rparr> \<and>
   res_status (reply (contact_firebase (\<lambda>m. None) ''admin@x.org'' None ''-K1'' 1000
      [(''email'', JStr ''not-an-email'')] \<lparr>fb_subscribers = [], fb_messages = []\<rparr>)) = 400 \<and>
   store (contact_firebase (\<lambda>m. None) ''admin@x.org'' None ''-K1'' 1000
      [(''email'', JStr ''not-an-email'')] \<lparr>fb_subscribers = [], fb_messages = []\<rparr>) =
     \<lparr>fb_subscribers = [], fb_messages = []\<rparr>"
proof -
  have bad: "\<not> emailRegex_test (js_string (field [(''email'', JStr ''not-an-email'')] ''email''))"
    by (simp add: field_def emailRegex_test_def emailRegex_def m_then_def not_space_at_def
        js_space_def)
  show ?thesis
    using bad invalid_input_is_400_without_write [of "[(''email'', JStr ''not-an-email'')]"
        None 1000 "\<lparr>subscribers = [], messages = []\<rparr>" "\<lambda>m. None" "''-K1''"
        "\<lparr>fb_subscribers = [], fb_messages = []\<rparr>" "''admin@x.org''"]
    by blast
qed

section \<open>Properties of the subscription store\<close>

lemma js_includes_unique:
  "js_includes ''SQLITE_CONSTRAINT: UNIQUE constraint failed: subscribers.email''
     ''UNIQUE constraint failed''"
  by simp

text \<open>
  The SQL variants: an email that no row holds is written once and answered 200, an
  email that a row holds is answered 409 and nothing is written, and any other failure of
  the write is answered 500.
\<close>

lemma subscribe_sqlite_new:
  assumes "emailRegex_test e" "e \<notin> set (map sub_email (subscribers db))"
  shows "reply (subscribe_sqlite None now [(''email'', JStr e)] db) =
           message_json 200 ''Successfully subscribed!'' \<and>
         subscribers (store (subscribe_sqlite None now [(''email'', JStr e)] db)) =
           subscribers db @
             [\<lparr>sub_id = next_rowid (map sub_id (subscribers db)), sub_email = e,
               subscribed_at = now div 1000\<rparr>]"
  using assms valid_email_field [OF assms(1)]
  by (simp add: subscribe_sqlite_def field_single insert_subscriber_def)

lemma subscribe_sqlite_duplicate:
  assumes "emailRegex_test e" "e \<in> set (map sub_email (subscribers db))"
  shows "reply (subscribe_sqlite None now [(''email'', JStr e)] db) =
           error_json 409 ''Email already subscribed'' \<and>
         store (subscribe_sqlite None now [(''email'', JStr e)] db) = db"
  using assms valid_email_field [OF assms(1)]
  by (simp add: subscribe_sqlite_def field_single insert_subscriber_def)

lemma subscribe_sqlite_other_failure:
  assumes "emailRegex_test e" "\<not> js_includes m ''UNIQUE constraint failed''"
  shows "reply (subscribe_sqlite (Some m) now [(''email'', JStr e)] db) =
           error_json 500 ''Failed to subscribe'' \<and>
         store (subscribe_sqlite (Some m) now [(''email'', JStr e)] db) = db"
  using assms valid_email_field [OF assms(1)]
  by (simp add: subscribe_sqlite_def field_single insert_subscriber_def)

lemma subscribe_sqlite_mail_new:
  assumes "emailRegex_test e" "e \<notin> set (map sub_email (subscribers db))"
  shows "reply (subscribe_sqlite_mail sgMail_send None now [(''email'', JStr e)] db) =
           message_json 200 ''Successfully subscribed!'' \<and>
         subscribers (store (subscribe_sqlite_mail sgMail_send None now [(''email'', JStr e)] db)) =
           subscribers db @
             [\<lparr>sub_id = next_rowid (map sub_id (subscribers db)), sub_email = e,
               subscribed_at = now div 1000\<rparr>]"
  using assms valid_email_field [OF assms(1)]
  by (simp add: subscribe_sqlite_mail_def field_single insert_subscriber_def)

lemma subscribe_sqlite_mail_duplicate:
  assumes "emailRegex_test e" "e \<in> set (map sub_email (subscribers db))"
  shows "reply (subscribe_sqlite_mail sgMail_send None now [(''email'', JStr e)] db) =
           error_json 409 ''Email already subscribed'' \<and>
         store (subscribe_sqlite_mail sgMail_send None now [(''email'', JStr e)] db) = db"
  using assms valid_email_field [OF assms(1)]
  by (simp add: subscribe_sqlite_mail_def field_single insert_subscriber_def)

text \<open>No request to a SQL variant makes two rows share an email.\<close>

lemma subscribe_sqlite_emails_distinct:
  "distinct (map sub_email (subscribers db)) \<Longrightarrow>
   distinct (map sub_email (subscribers (store (subscribe_sqlite fault now body db))))"
  by (auto simp: subscribe_sqlite_def insert_subscriber_def Let_def split: option.splits)

lemma subscribe_sqlite_mail_emails_distinct:
  "distinct (map sub_email (subscribers db)) \<Longrightarrow>
   distinct (map sub_email
     (subscribers (store (subscribe_sqlite_mail sgMail_send fault now body db))))"
  by (auto simp: subscribe_sqlite_mail_def insert_subscriber_def Let_def split: option.splits)

text \<open>
  C1, at the variant where the code departs from it. In \<^verbatim>\<open>server.js\<close> every valid
  subscribe request whose write and send succeed is answered 200 and adds a child under
  its fresh key, whatever the store already holds: an email that is already stored is
  stored again, and no request is answered 409.
\<close>

theorem subscribe_firebase_never_conflicts:
  assumes "emailRegex_test e" "sgMail_send (subscriberMsg e) = None"
  shows "reply (subscribe_firebase sgMail_send None key now [(''email'', JStr e)] db) =
           message_json 200 ''Successfully subscribed!'' \<and>
         fb_subscribers (store (subscribe_firebase sgMail_send None key now [(''email'', JStr e)] db)) =
           fb_subscribers db @
             [(key, JObj [(''email'', JStr e), (''subscribed_at'', JNum (int now))])]"
  using assms valid_email_field [OF assms(1)]
  by (simp add: subscribe_firebase_def field_single fb_set_def)

theorem subscribe_firebase_never_conflicts_witness:
  "reply (subscribe_firebase (\<lambda>m. None) None ''-K2'' 2000 [(''email'', JStr ''a@b.com'')]
      (store (subscribe_firebase (\<lambda>m. None) None ''-K1'' 1000 [(''email'', JStr ''a@b.com'')]
         \<lparr>fb_subscribers = [], fb_messages = []\<rparr>))) =
     message_json 200 ''Successfully subscribed!'' \<and>
   fb_subscribers (store (subscribe_firebase (\<lambda>m. None) None ''-K2'' 2000
      [(''email'', JStr ''a@b.com'')]
      (store (subscribe_firebase (\<lambda>m. None) None ''-K1'' 1000 [(''email'', JStr ''a@b.com'')]
         \<lparr>fb_subscribers = [], fb_messages = []\<rparr>)))) =
     [(''-K1'', JObj [(''email'', JStr ''a@b.com''), (''subscribed_at'', JNum 1000)]),
      (''-K2'', JObj [(''email'', JStr ''a@b.com''), (''subscribed_at'', JNum 2000)])]"
  using subscribe_firebase_never_conflicts [OF emailRegex_test_example, of "\<lambda>m. None" "''-K1''"
      1000 "\<lparr>fb_subscribers = [], fb_messages = []\<rparr>"]
    subscribe_firebase_never_conflicts [OF emailRegex_test_example, of "\<lambda>m. None" "''-K2''" 2000
      "store (subscribe_firebase (\<lambda>m. None) None ''-K1'' 1000 [(''email'', JStr ''a@b.com'')]
         \<lparr>fb_subscribers = [], fb_messages = []\<rparr>)"]
  by simp

section \<open>Properties of the notification mail\<close>

text \<open>
  The SQL variant with mail: response and store do not depend on the mail provider, and a
  failed send after a successful write leaves the 200 and a line on the console.
\<close>

lemma subscribe_sqlite_mail_reply_ignores_send:
  "reply (subscribe_sqlite_mail sgMail_send fault now body db) =
     reply (subscribe_sqlite_mail sgMail_send' fault now body db) \<and>
   store (subscribe_sqlite_mail sgMail_send fault now body db) =
     store (subscribe_sqlite_mail sgMail_send' fault now body db)"
  by (simp add: subscribe_sqlite_mail_def Let_def split: sum.splits)

lemma contact_sqlite_mail_reply_ignores_send:
  "reply (contact_sqlite_mail sgMail_send adminEmail fault now body db) =
     reply (contact_sqlite_mail sgMail_send' adminEmail fault now body db) \<and>
   store (contact_sqlite_mail sgMail_send adminEmail fault now body db) =
     store (contact_sqlite_mail sgMail_send' adminEmail fault now body db)"
  by (simp add: contact_sqlite_mail_def Let_def split: sum.splits)

lemma subscribe_sqlite_mail_send_failure:
  assumes "emailRegex_test e" "e \<notin> set (map sub_email (subscribers db))"
    and "sgMail_send (subscriberMsg e) = Some m"
  shows "subscribe_sqlite_mail sgMail_send None now [(''email'', JStr e)] db =
    \<lparr>reply = message_json 200 ''Successfully subscribed!'',
     store = db\<lparr>subscribers := subscribers db @
        [\<lparr>sub_id = next_rowid (map sub_id (subscribers db)), sub_email = e,
          subscribed_at = now div 1000\<rparr>]\<rparr>,
     console = [''Subscribed email: '' @ e, ''Error sending confirmation email: '' @ m]\<rparr>"
  using assms valid_email_field [OF assms(1)]
  by (simp add: subscribe_sqlite_mail_def field_single insert_subscriber_def)

text \<open>
  C2, at the variant where the code departs from it. In \<^verbatim>\<open>server.js\<close> a valid subscribe
  or contact request whose write succeeds and whose mail send fails is answered 500,
  while the record stays written.
\<close>

theorem firebase_send_failure_is_500:
  assumes "emailRegex_test e"
    and "truthy (JStr n)" "truthy (JStr msg)"
    and "sgMail_send (subscriberMsg e) = Some m" "sgMail_send (adminMsg adminEmail) = Some m"
  shows "reply (subscribe_firebase sgMail_send None key now [(''email'', JStr e)] db) =
           error_json 500 ''Failed to subscribe'' \<and>
         fb_subscribers (store (subscribe_firebase sgMail_send None key now [(''email'', JStr e)] db)) =
           fb_subscribers db @
             [(key, JObj [(''email'', JStr e), (''subscribed_at'', JNum (int now))])] \<and>
         reply (contact_firebase sgMail_send adminEmail None key now
                  [(''name'', JStr n), (''email'', JStr e), (''message'', JStr msg)] db) =
           error_json 500 ''Failed to send message'' \<and>
         fb_messages (store (contact_firebase sgMail_send adminEmail None key now
                  [(''name'', JStr n), (''email'', JStr e), (''message'', JStr msg)] db)) =
           fb_messages db @
             [(key, JObj [(''name'', JStr n), (''email'', JStr e), (''message'', JStr msg),
                          (''sent_at'', JNum (int now))])]"
  using assms valid_email_field [OF assms(1)]
  by (simp add: subscribe_firebase_def contact_firebase_def field_def fb_set_def)

theorem firebase_send_failure_is_500_witness:
  "reply (subscribe_firebase (\<lambda>m. Some ''Unauthorized'') None ''-K1'' 1000
      [(''email'', JStr ''a@b.com'')] \<lparr>fb_subscribers = [], fb_messages = []\<rparr>) =
     error_json 500 ''Failed to subscribe'' \<and>
   fb_subscribers (store (subscribe_firebase (\<lambda>m. Some ''Unauthorized'') None ''-K1'' 1000
      [(''email'', JStr ''a@b.com'')] \<lparr>fb_subscribers = [], fb_messages = []\<rparr>)) =
     [(''-K1'', JObj [(''email'', JStr ''a@b.com''), (''subscribed_at'', JNum 1000)])] \<and>
   reply (contact_firebase (\<lambda>m. Some ''Unauthorized'') ''admin@x.org'' None ''-K1'' 1000
      [(''name'', JStr ''A''), (''email'', JStr ''a@b.com''), (''message'', JStr ''hi'')]
      \<lparr>fb_subscribers = [], fb_messages = []\<rparr>) =
     error_json 500 ''Failed to send message'' \<and>
   fb_messages (store (contact_firebase (\<lambda>m. Some ''Unauthorized'') ''admin@x.org'' None ''-K1'' 1000
      [(''name'', JStr ''A''), (''email'', JStr ''a@b.com''), (''message'', JStr ''hi'')]
      \<lparr>fb_subscribers = [], fb_messages = []\<rparr>)) =
     [(''-K1'', JObj [(''name'', JStr ''A''), (''email'', JStr ''a@b.com''),
                      (''message'', JStr ''hi''), (''sent_at'', JNum 1000)])]"
  using firebase_send_failure_is_500 [OF emailRegex_test_example, of "''A''" "''hi''"
      "\<lambda>m. Some ''Unauthorized''" "''Unauthorized''" "''admin@x.org''" "''-K1''" 1000
      "\<lparr>fb_subscribers = [], fb_messages = []\<rparr>"]
  by simp

section \<open>Properties of the secured read endpoints\<close>

lemma authenticate_rejects:
  "creds \<noteq> Some (''admin'', apiKey) \<Longrightarrow> authenticate apiKey creds = Some unauthorized"
  by (auto simp: authenticate_def split: option.splits)

lemma authenticate_accepts: "authenticate apiKey (Some (''admin'', apiKey)) = None"
  by (simp add: authenticate_def)

text \<open>
  C6. A request to \<^verbatim>\<open>/subscribers\<close> or \<^verbatim>\<open>/messages\<close> whose credentials are absent or are
  not the name \<open>admin\<close> with the server's key is answered with one fixed response, in
  every variant and whatever the store holds: status 401 and the body
  \<^verbatim>\<open>{"error": "Unauthorized"}\<close>.
\<close>

theorem unauthorized_reads_are_401:
  assumes "creds \<noteq> Some (''admin'', apiKey)"
  shows "get_subscribers_sqlite apiKey creds fault db = unauthorized \<and>
         get_messages_sqlite apiKey creds fault db = unauthorized \<and>
         get_subscribers_firebase apiKey creds fault fdb = unauthorized \<and>
         get_messages_firebase apiKey creds fault fdb = unauthorized \<and>
         res_status unauthorized = 401 \<and>
         res_body unauthorized = Json (JObj [(''error'', JStr ''Unauthorized'')])"
  using authenticate_rejects [OF assms]
  by (simp add: get_subscribers_sqlite_def get_messages_sqlite_def get_subscribers_firebase_def
      get_messages_firebase_def unauthorized_def)

theorem unauthorized_reads_are_401_witness:
  "get_subscribers_sqlite ''secret'' (Some (''admin'', ''guess'')) None
     \<lparr>subscribers = [\<lparr>sub_id = 1, sub_email = ''a@b.com'', subscribed_at = 1\<rparr>], messages = []\<rparr>
     = unauthorized \<and>
   get_messages_firebase ''secret'' None None
     \<lparr>fb_subscribers = [], fb_messages = [(''-K1'', JObj [(''name'', JStr ''A'')])]\<rparr>
     = unauthorized \<and>
   res_status unauthorized = 401"
proof -
  have a: "Some (''admin'', ''guess'') \<noteq> Some (''admin'', ''secret'')" by simp
  have b: "None \<noteq> Some (''admin'', ''secret'')" by simp
  show ?thesis
    using unauthorized_reads_are_401 [OF a] unauthorized_reads_are_401 [OF b]
    by simp
qed

text \<open>
  The SQL variants list every stored row, by timestamp from the latest to the earliest.
\<close>

lemma select_subscribers_sorted:
  assumes "select_subscribers None db = Inr rows"
  shows "sorted (rev (map subscribed_at rows)) \<and> mset rows = mset (subscribers db)"
  using assms by (auto simp: select_subscribers_def rev_map)

lemma select_messages_sorted:
  assumes "select_messages None db = Inr rows"
  shows "sorted (rev (map sent_at rows)) \<and> mset rows = mset (messages db)"
  using assms by (auto simp: select_messages_def rev_map)

lemma get_subscribers_sqlite_listing:
  "get_subscribers_sqlite k (Some (''admin'', k)) None db =
     res_json 200 (JArr (map subscriber_json (rev (sort_key subscribed_at (subscribers db)))))"
  by (simp add: get_subscribers_sqlite_def authenticate_accepts select_subscribers_def)

lemma get_messages_sqlite_listing:
  "get_messages_sqlite k (Some (''admin'', k)) None db =
     res_json 200 (JArr (map message_json_row (rev (sort_key sent_at (messages db)))))"
  by (simp add: get_messages_sqlite_def authenticate_accepts select_messages_def)

lemma entries_with_id_snapshot:
  "(if truthy (snapshot_val children) then entries_with_id (snapshot_val children) else []) =
     map with_id children"
  by (simp add: snapshot_val_def)

text \<open>
  C3, at the variant where the code departs from it. In \<^verbatim>\<open>server.js\<close> an authorised
  listing returns the children as the store enumerates them, in key order: the record
  written first comes first, and nothing orders the list by timestamp.
\<close>

theorem firebase_listing_in_key_order:
  "get_subscribers_firebase k (Some (''admin'', k)) None db =
     res_json 200 (JArr (map with_id (fb_subscribers db))) \<and>
   get_messages_firebase k (Some (''admin'', k)) None db =
     res_json 200 (JArr (map with_id (fb_messages db)))"
  by (simp add: get_subscribers_firebase_def get_messages_firebase_def authenticate_accepts
      fb_once_def entries_with_id_snapshot)

theorem firebase_listing_in_key_order_witness:
  "get_subscribers_firebase ''key'' (Some (''admin'', ''key'')) None
     (store (subscribe_firebase (\<lambda>m. None) None ''-K2'' 2000 [(''email'', JStr ''c@d.org'')]
        (store (subscribe_firebase (\<lambda>m. None) None ''-K1'' 1000 [(''email'', JStr ''a@b.com'')]
           \<lparr>fb_subscribers = [], fb_messages = []\<rparr>)))) =
   res_json 200 (JArr
     [JObj [(''id'', JStr ''-K1''), (''email'', JStr ''a@b.com''), (''subscribed_at'', JNum 1000)],
      JObj [(''id'', JStr ''-K2''), (''email'', JStr ''c@d.org''), (''subscribed_at'', JNum 2000)]])"
  using firebase_listing_in_key_order [of "''key''"
      "store (subscribe_firebase (\<lambda>m. None) None ''-K2'' 2000 [(''email'', JStr ''c@d.org'')]
        (store (subscribe_firebase (\<lambda>m. None) None ''-K1'' 1000 [(''email'', JStr ''a@b.com'')]
           \<lparr>fb_subscribers = [], fb_messages = []\<rparr>)))"]
  by (simp add: subscribe_firebase_def field_def fb_set_def emailRegex_test_def emailRegex_def
      m_then_def not_space_at_def js_space_def)

text \<open>
  C10. With no stored record, an authorised request to \<^verbatim>\<open>/subscribers\<close> or
  \<^verbatim>\<open>/messages\<close> whose read succeeds is answered 200 with the empty array, in every
  variant.
\<close>

theorem empty_store_lists_empty_array:
  "(subscribers db = [] \<longrightarrow>
      get_subscribers_sqlite k (Some (''admin'', k)) None db = res_json 200 (JArr [])) \<and>
   (messages db = [] \<longrightarrow>
      get_messages_sqlite k (Some (''admin'', k)) None db = res_json 200 (JArr [])) \<and>
   (fb_subscribers fdb = [] \<longrightarrow>
      get_subscribers_firebase k (Some (''admin'', k)) None fdb = res_json 200 (JArr [])) \<and>
   (fb_messages fdb = [] \<longrightarrow>
      get_messages_firebase k (Some (''admin'', k)) None fdb = res_json 200 (JArr []))"
  by (simp add: get_subscribers_sqlite_def get_messages_sqlite_def get_subscribers_firebase_def
      get_messages_firebase_def authenticate_accepts select_subscribers_def select_messages_def
      fb_once_def snapshot_val_def)

theorem empty_store_lists_empty_array_witness:
  "get_subscribers_sqlite ''secret'' (Some (''admin'', ''secret'')) None
      \<lparr>subscribers = [], messages = []\<rparr> = res_json 200 (JArr []) \<and>
   get_messages_sqlite ''secret'' (Some (''admin'', ''secret'')) None
      \<lparr>subscribers = [], messages = []\<rparr> = res_json 200 (JArr []) \<and>
   get_subscribers_firebase ''secret'' (Some (''admin'', ''secret'')) None
      \<lparr>fb_subscribers = [], fb_messages = []\<rparr> = res_json 200 (JArr []) \<and>
   get_messages_firebase ''secret'' (Some (''admin'', ''secret'')) None
      \<lparr>fb_subscribers = [], fb_messages = []\<rparr> = res_json 200 (JArr [])"
  using empty_store_lists_empty_array [of "\<lparr>subscribers = [], messages = []\<rparr>" "''secret''"
      "\<lparr>fb_subscribers = [], fb_messages = []\<rparr>"]
  by simp

section \<open>Properties of the client key\<close>

text \<open>
  The key of a request is the first address of the forwarding header, trimmed; a request
  without the header, or with an empty one, is keyed by its connection address.
\<close>

lemma keyGenerator_first_address:
  "keyGenerator (Some ''203.0.113.7 , 10.0.0.1'') ''10.0.0.9'' = ''203.0.113.7''"
  by (simp add: keyGenerator_def js_trim_def js_space_def)

lemma keyGenerator_no_header: "keyGenerator None ip = ip \<and> keyGenerator (Some []) ip = ip"
  by (simp add: keyGenerator_def)

end
